theory Spec2Isabelle
  imports Main
begin

section \<open>Python values used by PortableXE\<close>

text \<open>
  A Python \<open>bytes\<close> object is a sequence of 8-bit values; HOL's \<open>char\<close> is exactly an
  8-bit value, so \<open>b'MZ'\<close> is the list \<open>''MZ''\<close>.  File names and paths (\<open>str\<close>) are
  modelled as byte strings too, with \<open>str.lower\<close> acting on the ASCII letters.
\<close>

type_synonym bytes = "char list"

datatype py_error = OSError | StructError | ValueError | TimeoutExpired

text \<open>\<open>c.lower()\<close> on one character: \<open>A\<close>..\<open>Z\<close> go to \<open>a\<close>..\<open>z\<close>.\<close>

definition lower_char :: "char \<Rightarrow> char" where
  "lower_char c =
     (let n = (of_char c :: nat) in if 65 \<le> n \<and> n \<le> 90 then char_of (n + 32) else c)"

definition lower :: "string \<Rightarrow> string" where
  "lower s = map lower_char s"

text \<open>\<open>s.startswith(p)\<close>, \<open>s.endswith(p)\<close> and \<open>p in s\<close> (substring test).\<close>

fun startswith :: "'a list \<Rightarrow> 'a list \<Rightarrow> bool" where
  "startswith s [] = True"
| "startswith [] (p # ps) = False"
| "startswith (c # cs) (p # ps) = (c = p \<and> startswith cs ps)"

definition endswith :: "'a list \<Rightarrow> 'a list \<Rightarrow> bool" where
  "endswith s p = startswith (rev s) (rev p)"

fun contains :: "'a list \<Rightarrow> 'a list \<Rightarrow> bool" where
  "contains [] p = (p = [])"
| "contains (c # cs) p = (startswith (c # cs) p \<or> contains cs p)"

section \<open>FileAnalyzer.detect_installer_type\<close>

text \<open>
  What the function asks of the operating system: \<open>os.path.basename\<close>, opening and
  reading the file (\<open>None\<close>: \<open>open\<close> or \<open>read\<close> raises; \<open>Some\<close>: the file's whole
  content, of which \<open>f.read(8192)\<close> returns the first 8192 bytes), and
  \<open>os.path.getsize\<close> (\<open>None\<close>: it raises).
\<close>

record os_env =
  basename :: "string \<Rightarrow> string"
  open_rb :: "string \<Rightarrow> bytes option"
  getsize :: "string \<Rightarrow> nat option"

definition installer_patterns :: "string list" where
  "installer_patterns = [''setup'', ''install'', ''installer'']"

text \<open>The chain of signature tests on the bytes read, in the source's order.\<close>

definition scan_signatures :: "bytes \<Rightarrow> string option" where
  "scan_signatures data =
     (if contains data ''Inno Setup'' \<or> contains data ''InnoSetup'' then Some ''Inno Setup''
      else if contains data ''NSIS'' \<or> contains data ''Nullsoft''
              \<or> contains data ''!insertmacro'' then Some ''NSIS''
      else if contains data ''InstallShield'' then Some ''InstallShield''
      else if contains data ''WiX'' \<or> contains data ''Windows Installer'' then Some ''WiX''
      else if contains data ''This installation package'' then Some ''Windows Installer''
      else if contains data ''Advanced Installer'' then Some ''Advanced Installer''
      else None)"

text \<open>
  The body of the \<open>try\<close> block; \<open>Inl\<close> is an exception leaving it.
\<close>

definition detect_body :: "os_env \<Rightarrow> string \<Rightarrow> py_error + (bool \<times> string)" where
  "detect_body env file_path =
     (let filename = lower (basename env file_path) in
      if list_ex (\<lambda>pattern. contains filename pattern) installer_patterns
      then Inr (True, ''Generic Installer'')
      else case open_rb env file_path of
        None \<Rightarrow> Inl OSError
      | Some content \<Rightarrow>
          (case scan_signatures (take 8192 content) of
             Some family \<Rightarrow> Inr (True, family)
           | None \<Rightarrow>
               (case getsize env file_path of
                  None \<Rightarrow> Inl OSError
                | Some file_size \<Rightarrow>
                    if file_size > 50 * 1024 * 1024
                    then Inr (True, ''Large Executable (Likely Installer)'')
                    else Inr (False, ''Standalone Application''))))"

text \<open>
  The whole function: \<open>except Exception\<close> turns every exception of the body into
  \<open>(False, "Unknown")\<close>, so the result type keeps \<open>py_error\<close> only to say that no
  exception reaches the caller.
\<close>

definition detect_installer_type :: "os_env \<Rightarrow> string \<Rightarrow> py_error + (bool \<times> string)" where
  "detect_installer_type env file_path =
     (case detect_body env file_path of
        Inr r \<Rightarrow> Inr r
      | Inl e \<Rightarrow> Inr (False, ''Unknown''))"

text \<open>
  The spec's reading of the signature tests: a table of frameworks with their marker
  byte strings, the first framework with a marker in the data being the match.
\<close>

definition framework_table :: "(string \<times> bytes list) list" where
  "framework_table =
     [(''Inno Setup'', [''Inno Setup'', ''InnoSetup'']),
      (''NSIS'', [''NSIS'', ''Nullsoft'', ''!insertmacro'']),
      (''InstallShield'', [''InstallShield'']),
      (''WiX'', [''WiX'', ''Windows Installer'']),
      (''Windows Installer'', [''This installation package'']),
      (''Advanced Installer'', [''Advanced Installer''])]"

definition has_marker :: "bytes \<Rightarrow> bytes list \<Rightarrow> bool" where
  "has_marker data markers = list_ex (\<lambda>m. contains data m) markers"

fun first_framework :: "(string \<times> bytes list) list \<Rightarrow> bytes \<Rightarrow> string option" where
  "first_framework [] data = None"
| "first_framework ((name, markers) # rest) data =
     (if has_marker data markers then Some name else first_framework rest data)"

definition family_names :: "string list" where
  "family_names = ''Generic Installer'' # ''Large Executable (Likely Installer)''
                    # ''Standalone Application'' # map fst framework_table"

definition name_matches :: "os_env \<Rightarrow> string \<Rightarrow> bool" where
  "name_matches env file_path =
     (contains (lower (basename env file_path)) ''setup''
      \<or> contains (lower (basename env file_path)) ''install''
      \<or> contains (lower (basename env file_path)) ''installer'')"

section \<open>FileAnalyzer.analyze_pe_structure\<close>

record pe_analysis =
  is_valid_pe :: bool
  is_installer :: bool
  installer_type :: string
  architecture :: string
  subsystem :: string
  sections :: "string list"
  imports_list :: "string list"
  resources :: "string list"

definition initial_analysis :: pe_analysis where
  "initial_analysis =
     \<lparr>is_valid_pe = False, is_installer = False, installer_type = ''unknown'',
      architecture = ''unknown'', subsystem = ''unknown'', sections = [],
      imports_list = [], resources = []\<rparr>"

text \<open>
  How the \<open>try\<close> block ends: by \<open>return analysis\<close> (or by falling out of the
  \<open>with\<close>), or by an exception; the dictionary \<open>analysis\<close> as it is at that moment
  comes with both.
\<close>

datatype parse_outcome = Returned pe_analysis | Raised py_error pe_analysis

text \<open>The slice \<open>b[i:j]\<close> for \<open>0 \<le> i \<le> j\<close>.\<close>

definition slice :: "nat \<Rightarrow> nat \<Rightarrow> 'a list \<Rightarrow> 'a list" where
  "slice i j b = take (j - i) (drop i b)"

text \<open>
  \<open>struct.unpack('<H', b)[0]\<close> and \<open>struct.unpack('<L', b)[0]\<close>: the little-endian
  value of exactly 2 or 4 bytes; \<open>struct.error\<close> on any other length.
\<close>

definition le_value :: "bytes \<Rightarrow> nat" where
  "le_value b = foldr (\<lambda>c acc. of_char c + 256 * acc) b 0"

definition unpack_le :: "nat \<Rightarrow> bytes \<Rightarrow> py_error + nat" where
  "unpack_le n b = (if length b = n then Inr (le_value b) else Inl StructError)"

text \<open>\<open>section_header[0:8].rstrip(b'\x00').decode('ascii', errors='ignore')\<close>\<close>

definition rstrip_zero :: "bytes \<Rightarrow> bytes" where
  "rstrip_zero b = rev (dropWhile (\<lambda>c. c = CHR 0x00) (rev b))"

definition decode_ascii_ignore :: "bytes \<Rightarrow> string" where
  "decode_ascii_ignore b = filter (\<lambda>c. (of_char c :: nat) < 128) b"

definition section_name :: "bytes \<Rightarrow> string" where
  "section_name section_header = decode_ascii_ignore (rstrip_zero (slice 0 8 section_header))"

text \<open>
  The open file is the bytes from its current position on: \<open>f.read(n)\<close> returns
  \<open>take n f\<close> and leaves \<open>drop n f\<close>; \<open>f.seek(k)\<close> leaves \<open>drop k content\<close>.
  The loop \<open>for i in range(num_sections)\<close>:
\<close>

fun read_sections :: "nat \<Rightarrow> bytes \<Rightarrow> pe_analysis \<Rightarrow> pe_analysis" where
  "read_sections 0 f analysis = analysis"
| "read_sections (Suc n) f analysis =
     (let section_header = take 40 f in
      read_sections n (drop 40 f)
        (if length section_header = 40
         then analysis\<lparr>sections := sections analysis @ [section_name section_header]\<rparr>
         else analysis))"

definition set_architecture :: "nat \<Rightarrow> pe_analysis \<Rightarrow> pe_analysis" where
  "set_architecture machine analysis =
     (if machine = 0x8664 then analysis\<lparr>architecture := ''x64''\<rparr>
      else if machine = 0x14c then analysis\<lparr>architecture := ''x86''\<rparr>
      else if machine = 0x1c4 then analysis\<lparr>architecture := ''ARM''\<rparr>
      else analysis)"

definition set_subsystem :: "nat \<Rightarrow> pe_analysis \<Rightarrow> pe_analysis" where
  "set_subsystem code analysis =
     (if code = 2 then analysis\<lparr>subsystem := ''GUI''\<rparr>
      else if code = 3 then analysis\<lparr>subsystem := ''Console''\<rparr>
      else analysis)"

text \<open>From \<open>coff_header = f.read(20)\<close> to the end of the \<open>with\<close> block.\<close>

definition parse_headers :: "bytes \<Rightarrow> pe_analysis \<Rightarrow> parse_outcome" where
  "parse_headers f analysis =
     (let coff_header = take 20 f; f1 = drop 20 f in
      case unpack_le 2 (slice 0 2 coff_header) of
        Inl e \<Rightarrow> Raised e analysis
      | Inr machine \<Rightarrow>
      (case unpack_le 2 (slice 2 4 coff_header) of
        Inl e \<Rightarrow> Raised e analysis
      | Inr num_sections \<Rightarrow>
      (let analysis1 = set_architecture machine analysis in
       case unpack_le 2 (slice 16 18 coff_header) of
        Inl e \<Rightarrow> Raised e analysis1
      | Inr opt_header_size \<Rightarrow>
          if opt_header_size > 0 then
            (let opt_header = take opt_header_size f1; f2 = drop opt_header_size f1 in
             if length opt_header \<ge> 68 then
               (case unpack_le 2 (slice 68 70 opt_header) of
                  Inl e \<Rightarrow> Raised e analysis1
                | Inr code \<Rightarrow>
                    Returned (read_sections num_sections f2 (set_subsystem code analysis1)))
             else Returned (read_sections num_sections f2 analysis1))
          else Returned (read_sections num_sections f1 analysis1))))"

text \<open>The body of the \<open>with\<close> block, on the content of the opened file.\<close>

definition parse_pe :: "bytes \<Rightarrow> parse_outcome" where
  "parse_pe content =
     (let analysis = initial_analysis; dos_header = take 64 content in
      if slice 0 2 dos_header \<noteq> ''MZ'' then Returned analysis
      else case unpack_le 4 (slice 60 64 dos_header) of
        Inl e \<Rightarrow> Raised e analysis
      | Inr pe_offset \<Rightarrow>
          (let f = drop pe_offset content; pe_sig = take 4 f in
           if pe_sig \<noteq> [CHR ''P'', CHR ''E'', CHR 0x00, CHR 0x00] then Returned analysis
           else parse_headers (drop 4 f) (analysis\<lparr>is_valid_pe := True\<rparr>)))"

definition analyze_body :: "os_env \<Rightarrow> string \<Rightarrow> parse_outcome" where
  "analyze_body env file_path =
     (case open_rb env file_path of
        None \<Rightarrow> Raised OSError initial_analysis
      | Some content \<Rightarrow> parse_pe content)"

text \<open>
  The whole function: \<open>except Exception\<close> logs a warning and falls through to
  \<open>return analysis\<close>, so \<open>Inl\<close> (an exception reaching the caller) never occurs.
\<close>

definition analyze_pe_structure :: "os_env \<Rightarrow> string \<Rightarrow> py_error + pe_analysis" where
  "analyze_pe_structure env file_path =
     (case analyze_body env file_path of
        Returned analysis \<Rightarrow> Inr analysis
      | Raised e analysis \<Rightarrow> Inr analysis)"


text \<open>
  The analysis that comes with an outcome.
\<close>

fun outcome_analysis :: "parse_outcome \<Rightarrow> pe_analysis" where
  "outcome_analysis (Returned a) = a"
| "outcome_analysis (Raised e a) = a"


section \<open>ExtractionEngine: the target directory\<close>

text \<open>
  A directory tree, and what the path \<open>extract_dir\<close> names at a given moment.
\<close>

datatype node = File string | Dir string "node list"

datatype path_state = Missing | RegularFile | Directory "node list"

fun node_name :: "node \<Rightarrow> string" where
  "node_name (File n) = n"
| "node_name (Dir n sub) = n"

definition listdir :: "path_state \<Rightarrow> py_error + string list" where
  "listdir d = (case d of Directory entries \<Rightarrow> Inr (map node_name entries) | _ \<Rightarrow> Inl OSError)"

text \<open>
  \<open>os.walk\<close>: one list of file names per directory visited, the top directory first.
\<close>

fun file_names :: "node list \<Rightarrow> string list" where
  "file_names [] = []"
| "file_names (File n # rest) = n # file_names rest"
| "file_names (Dir n sub # rest) = file_names rest"

fun walk_node :: "node \<Rightarrow> string list list" where
  "walk_node (File n) = []"
| "walk_node (Dir n sub) = file_names sub # concat (map walk_node sub)"

definition walk :: "path_state \<Rightarrow> string list list" where
  "walk d = (case d of Directory entries \<Rightarrow> file_names entries # concat (map walk_node entries)
             | _ \<Rightarrow> [])"

section \<open>ExtractionEngine._validate_extraction\<close>

definition pe_sections :: "string list" where
  "pe_sections = [''.text'', ''.data'', ''.rdata'', ''.bss'', ''.idata'', ''.edata'', ''.rsrc'']"

definition is_section_name :: "string \<Rightarrow> bool" where
  "is_section_name f = list_ex (\<lambda>section. startswith f section) pe_sections"

definition is_executable_name :: "string \<Rightarrow> bool" where
  "is_executable_name file = list_ex (endswith (lower file)) [''.exe'', ''.dll'', ''.sys'']"

definition is_meaningful_name :: "string \<Rightarrow> bool" where
  "is_meaningful_name file =
     list_ex (endswith (lower file)) [''.exe'', ''.dll'', ''.txt'', ''.ini'', ''.cfg'', ''.dat'']"

text \<open>One pass of the inner loop over a file name, on \<open>(exe_count, meaningful_files)\<close>.\<close>

definition count_file :: "nat \<times> nat \<Rightarrow> string \<Rightarrow> nat \<times> nat" where
  "count_file counts file =
     (case counts of (exe_count, meaningful_files) \<Rightarrow>
        (if is_executable_name file then exe_count + 1 else exe_count,
         if is_meaningful_name file then meaningful_files + 1 else meaningful_files))"

definition validate_extraction :: "string \<Rightarrow> path_state \<Rightarrow> py_error + bool" where
  "validate_extraction extract_dir d =
     (if extract_dir = [] \<or> d = Missing then Inr False
      else case listdir d of
        Inl e \<Rightarrow> Inl e
      | Inr files \<Rightarrow>
          if length files = 0 then Inr False
          else
            (let pe_section_count = length (filter is_section_name files) in
             if pe_section_count > 3 then Inr False
             else
               (case foldl count_file (0, 0) (concat (walk d)) of
                  (exe_count, meaningful_files) \<Rightarrow>
                    Inr (exe_count > 0 \<or> meaningful_files > 5))))"

section \<open>ExtractionEngine: the strategies\<close>

text \<open>
  What the engine asks of its surroundings.  The configuration file is a lookup by
  section and key.  \<open>find_7zip\<close> and \<open>find_innoextract\<close> give the tool found, if any.
  \<open>int_of_str\<close> is the builtin \<open>int\<close> on a string (\<open>None\<close>: \<open>ValueError\<close>).
  \<open>subprocess_run cmd timeout d\<close> runs the command on the target directory in state
  \<open>d\<close> and gives how the call ended with the state it left.  \<open>zip_extractall\<close> is
  \<open>zipfile.ZipFile(installer_path).extractall(extract_dir)\<close>, with the exception it
  raised, if any.  \<open>rmtree_fault\<close> says whether \<open>shutil.rmtree\<close> fails on a directory
  and what it leaves behind when it does; \<open>makedirs_fault\<close> whether \<open>os.makedirs\<close>
  fails.  \<open>extract_dir\<close> is the path \<open>os.path.join(self.temp_dir, "extracted")\<close>.
\<close>

datatype proc_outcome = Exited int | RunRaised py_error

record tool_env =
  config :: "string \<Rightarrow> string \<Rightarrow> string option"
  find_7zip :: "string option"
  find_innoextract :: "string option"
  int_of_str :: "string \<Rightarrow> int option"
  subprocess_run :: "string list \<Rightarrow> int \<Rightarrow> path_state \<Rightarrow> proc_outcome \<times> path_state"
  zip_extractall :: "string \<Rightarrow> path_state \<Rightarrow> py_error option \<times> path_state"
  rmtree_fault :: "path_state \<Rightarrow> path_state option"
  makedirs_fault :: bool
  extract_dir :: string

text \<open>\<open>PortableXEConfig.get(section, key, fallback)\<close>\<close>

definition config_get :: "tool_env \<Rightarrow> string \<Rightarrow> string \<Rightarrow> string \<Rightarrow> string" where
  "config_get env section key fallback =
     (case config env section key of Some v \<Rightarrow> v | None \<Rightarrow> fallback)"

text \<open>
  The three lines shared by the tool-backed strategies, inside their \<open>try\<close>: read the
  timeout, run the command, and return
  \<open>result.returncode == 0 and len(os.listdir(extract_dir)) > 0\<close>.  Every exception
  is caught by the strategy and makes it return \<open>False\<close>.
\<close>

definition run_tool :: "tool_env \<Rightarrow> string list \<Rightarrow> path_state \<Rightarrow> bool \<times> path_state" where
  "run_tool env cmd d =
     (case int_of_str env (config_get env ''Extraction'' ''timeout_seconds'' ''300'') of
        None \<Rightarrow> (False, d)
      | Some timeout \<Rightarrow>
          (case subprocess_run env cmd timeout d of
             (RunRaised e, d') \<Rightarrow> (False, d')
           | (Exited returncode, d') \<Rightarrow>
               if returncode = 0
               then (case listdir d' of
                       Inl e \<Rightarrow> (False, d')
                     | Inr names \<Rightarrow> (length names > 0, d'))
               else (False, d')))"

definition cmd_7zip :: "tool_env \<Rightarrow> string \<Rightarrow> string \<Rightarrow> string list" where
  "cmd_7zip env seven_zip_exe installer_path =
     [seven_zip_exe, ''x'', installer_path, ''-o'' @ extract_dir env, ''-y'', ''-bb1'']"

definition cmd_innoextract :: "tool_env \<Rightarrow> string \<Rightarrow> string \<Rightarrow> string list" where
  "cmd_innoextract env innoextract_exe installer_path =
     [innoextract_exe, installer_path, ''-d'', extract_dir env, ''-s'']"

definition cmd_msi :: "tool_env \<Rightarrow> string \<Rightarrow> string list" where
  "cmd_msi env installer_path =
     [''msiexec'', ''/a'', installer_path, ''/qb'', ''TARGETDIR='' @ extract_dir env]"

definition extract_with_7zip :: "tool_env \<Rightarrow> string \<Rightarrow> path_state \<Rightarrow> bool \<times> path_state" where
  "extract_with_7zip env installer_path d =
     (case find_7zip env of
        None \<Rightarrow> (False, d)
      | Some seven_zip_exe \<Rightarrow> run_tool env (cmd_7zip env seven_zip_exe installer_path) d)"

definition extract_with_innoextract ::
  "tool_env \<Rightarrow> string \<Rightarrow> path_state \<Rightarrow> bool \<times> path_state" where
  "extract_with_innoextract env installer_path d =
     (case find_innoextract env of
        None \<Rightarrow> (False, d)
      | Some innoextract_exe \<Rightarrow>
          run_tool env (cmd_innoextract env innoextract_exe installer_path) d)"

definition extract_msi :: "tool_env \<Rightarrow> string \<Rightarrow> path_state \<Rightarrow> bool \<times> path_state" where
  "extract_msi env installer_path d = run_tool env (cmd_msi env installer_path) d"

definition extract_universal :: "tool_env \<Rightarrow> string \<Rightarrow> path_state \<Rightarrow> bool \<times> path_state" where
  "extract_universal env installer_path d =
     (case zip_extractall env installer_path d of
        (Some e, d') \<Rightarrow> (False, d')
      | (None, d') \<Rightarrow>
          (case listdir d' of
             Inl e \<Rightarrow> (False, d')
           | Inr names \<Rightarrow> (length names > 0, d')))"

section \<open>ExtractionEngine._cleanup_failed_extraction\<close>

text \<open>
  \<open>shutil.rmtree\<close> removes a directory unless it fails; \<open>os.makedirs(exist_ok=True)\<close>
  creates a missing directory unless it fails and leaves an existing one alone.
\<close>

definition rmtree :: "tool_env \<Rightarrow> path_state \<Rightarrow> py_error option \<times> path_state" where
  "rmtree env d =
     (case d of
        Directory entries \<Rightarrow>
          (case rmtree_fault env d of
             Some d' \<Rightarrow> (Some OSError, d')
           | None \<Rightarrow> (None, Missing))
      | _ \<Rightarrow> (Some OSError, d))"

definition makedirs :: "tool_env \<Rightarrow> path_state \<Rightarrow> py_error option \<times> path_state" where
  "makedirs env d =
     (case d of
        Missing \<Rightarrow> (if makedirs_fault env then (Some OSError, Missing) else (None, Directory []))
      | Directory entries \<Rightarrow> (None, d)
      | RegularFile \<Rightarrow> (Some OSError, d))"

definition cleanup_failed_extraction :: "tool_env \<Rightarrow> path_state \<Rightarrow> path_state" where
  "cleanup_failed_extraction env d =
     (if d \<noteq> Missing then
        (case rmtree env d of
           (Some e, d') \<Rightarrow> d'
         | (None, d') \<Rightarrow> snd (makedirs env d'))
      else d)"

section \<open>ExtractionEngine.extract_installer\<close>

text \<open>
  The run keeps, beside the state of the target directory, a record of every strategy
  call: which strategy, the state of the target directory when it was called, and how
  the attempt ended.
\<close>

datatype strategy = SevenZip | InnoExtract | MsiExec | Universal

datatype attempt_outcome = ReportedFailure | Validated | RejectedByValidator | ValidatorRaised

record attempt =
  strategy :: strategy
  dir_at_start :: path_state
  outcome :: attempt_outcome

datatype step = Continue | Return "string option"

type_synonym run_state = "path_state \<times> attempt list"

text \<open>
  What follows a strategy call in the blocks of methods 1 to 3: on success the
  validator decides between \<open>return extract_dir\<close> and the cleanup; an exception of
  the validator reaches \<open>except Exception\<close> of \<open>extract_installer\<close>, which returns
  \<open>None\<close>.
\<close>

definition after_strategy ::
  "tool_env \<Rightarrow> strategy \<Rightarrow> run_state \<Rightarrow> bool \<times> path_state \<Rightarrow> step \<times> run_state" where
  "after_strategy env s st r =
     (case st of (d0, log) \<Rightarrow> case r of (ok, d) \<Rightarrow>
        if ok then
          (case validate_extraction (extract_dir env) d of
             Inl e \<Rightarrow>
               (Return None,
                d, log @ [\<lparr>strategy = s, dir_at_start = d0, outcome = ValidatorRaised\<rparr>])
           | Inr valid \<Rightarrow>
               if valid
               then (Return (Some (extract_dir env)),
                     d, log @ [\<lparr>strategy = s, dir_at_start = d0, outcome = Validated\<rparr>])
               else (Continue,
                     cleanup_failed_extraction env d,
                     log @ [\<lparr>strategy = s, dir_at_start = d0,
                              outcome = RejectedByValidator\<rparr>]))
        else (Continue,
              d, log @ [\<lparr>strategy = s, dir_at_start = d0, outcome = ReportedFailure\<rparr>]))"

definition method_7zip :: "tool_env \<Rightarrow> string \<Rightarrow> run_state \<Rightarrow> step \<times> run_state" where
  "method_7zip env installer_path st =
     (if config_get env ''Extraction'' ''use_7zip'' [] = ''true''
      then after_strategy env SevenZip st (extract_with_7zip env installer_path (fst st))
      else (Continue, st))"

definition method_innoextract :: "tool_env \<Rightarrow> string \<Rightarrow> run_state \<Rightarrow> step \<times> run_state" where
  "method_innoextract env installer_path st =
     (if config_get env ''Extraction'' ''use_innoextract'' [] = ''true''
      then after_strategy env InnoExtract st
             (extract_with_innoextract env installer_path (fst st))
      else (Continue, st))"

definition method_msi :: "tool_env \<Rightarrow> string \<Rightarrow> run_state \<Rightarrow> step \<times> run_state" where
  "method_msi env installer_path st =
     (if endswith (lower installer_path) ''.msi''
         \<and> config_get env ''Extraction'' ''use_msi_extract'' [] = ''true''
      then after_strategy env MsiExec st (extract_msi env installer_path (fst st))
      else (Continue, st))"

text \<open>Method 4 has no cleanup: a rejection falls through to \<open>return None\<close>.\<close>

definition method_universal :: "tool_env \<Rightarrow> string \<Rightarrow> run_state \<Rightarrow> step \<times> run_state" where
  "method_universal env installer_path st =
     (case st of (d0, log) \<Rightarrow>
        case extract_universal env installer_path d0 of (ok, d) \<Rightarrow>
          if ok then
            (case validate_extraction (extract_dir env) d of
               Inl e \<Rightarrow>
                 (Return None,
                  d, log @ [\<lparr>strategy = Universal, dir_at_start = d0,
                            outcome = ValidatorRaised\<rparr>])
             | Inr valid \<Rightarrow>
                 if valid
                 then (Return (Some (extract_dir env)),
                       d, log @ [\<lparr>strategy = Universal, dir_at_start = d0,
                                 outcome = Validated\<rparr>])
                 else (Return None,
                       d, log @ [\<lparr>strategy = Universal, dir_at_start = d0,
                                 outcome = RejectedByValidator\<rparr>]))
          else (Return None,
                d, log @ [\<lparr>strategy = Universal, dir_at_start = d0,
                          outcome = ReportedFailure\<rparr>]))"

text \<open>Running the next method unless a \<open>return\<close> has been reached.\<close>

definition and_then ::
  "step \<times> run_state \<Rightarrow> (run_state \<Rightarrow> step \<times> run_state) \<Rightarrow> step \<times> run_state" where
  "and_then r m = (case r of (Continue, st) \<Rightarrow> m st | (Return v, st) \<Rightarrow> (Return v, st))"

text \<open>
  The \<open>try\<close> block of \<open>extract_installer\<close> with \<open>progress_callback=None\<close>, from the
  empty target directory that \<open>os.makedirs\<close> has just created.
\<close>

definition run_methods :: "tool_env \<Rightarrow> string \<Rightarrow> step \<times> run_state" where
  "run_methods env installer_path =
     and_then (and_then (and_then
       (method_7zip env installer_path (Directory [], []))
       (method_innoextract env installer_path))
       (method_msi env installer_path))
       (method_universal env installer_path)"

definition extract_installer :: "tool_env \<Rightarrow> string \<Rightarrow> string option" where
  "extract_installer env installer_path =
     (case fst (run_methods env installer_path) of Return v \<Rightarrow> v | Continue \<Rightarrow> None)"

definition attempts :: "tool_env \<Rightarrow> string \<Rightarrow> attempt list" where
  "attempts env installer_path = snd (snd (run_methods env installer_path))"

text \<open>
  The record of a run is clean when every attempt that follows a rejection by the
  validator started on an empty target directory; a state is clean when, besides, the
  directory is empty if the last attempt was rejected.
\<close>

definition pairs_clean :: "attempt list \<Rightarrow> bool" where
  "pairs_clean log =
     (\<forall>i. Suc i < length log \<and> outcome (log ! i) = RejectedByValidator
            \<longrightarrow> dir_at_start (log ! Suc i) = Directory [])"

definition clean_after_reject :: "run_state \<Rightarrow> bool" where
  "clean_after_reject st =
     (pairs_clean (snd st)
      \<and> (snd st \<noteq> [] \<and> outcome (last (snd st)) = RejectedByValidator
            \<longrightarrow> fst st = Directory []))"

section \<open>Example inputs\<close>

definition example_files :: "string \<Rightarrow> bytes option" where
  "example_files p =
     (if p = ''setup.exe'' then Some ''xx Inno Setup xx''
      else if p = ''app.exe'' then Some ''packed by NSIS''
      else if p = ''photo_tool.exe'' then Some (replicate (60 * 1024 * 1024) (CHR 0x00))
      else if p = ''tool.exe'' then Some ''MZ''
      else None)"

definition example_env :: os_env where
  "example_env =
     \<lparr>basename = (\<lambda>p. p), open_rb = example_files,
      getsize = (\<lambda>p. map_option length (example_files p))\<rparr>"

text \<open>
  Executable files: a DOS header declaring offset 64 followed by the PE signature;
  a COFF header for machine \<open>0x14c\<close> with one section and a given optional-header
  size; one section header named \<open>.text\<close>.
\<close>

definition dos_stub :: bytes where
  "dos_stub = ''MZ'' @ replicate 58 (CHR 0x00) @ [CHR 0x40, CHR 0x00, CHR 0x00, CHR 0x00]
                @ [CHR ''P'', CHR ''E'', CHR 0x00, CHR 0x00]"

definition coff_x86 :: "nat \<Rightarrow> bytes" where
  "coff_x86 opt_size = [CHR 0x4c, CHR 0x01, CHR 0x01, CHR 0x00] @ replicate 12 (CHR 0x00)
                         @ [char_of opt_size, CHR 0x00] @ replicate 2 (CHR 0x00)"

definition text_section :: bytes where
  "text_section = ''.text'' @ replicate 35 (CHR 0x00)"

definition pe_with_optional :: "nat \<Rightarrow> bytes" where
  "pe_with_optional opt_size =
     dos_stub @ coff_x86 opt_size @ replicate opt_size (CHR 0x00) @ text_section"

definition pe_env :: "bytes \<Rightarrow> os_env" where
  "pe_env content =
     \<lparr>basename = (\<lambda>p. p), open_rb = (\<lambda>p. Some content), getsize = (\<lambda>p. Some (length content))\<rparr>"

text \<open>Target directories.\<close>

definition dissected_dir :: "node list" where
  "dissected_dir =
     [File ''.text'', File ''.data'', File ''.rdata'', File ''.rsrc'', File ''app.exe'']"

definition app_dir :: "node list" where
  "app_dir = [Dir ''bin'' [File ''App.EXE''], File ''readme.txt'']"

definition empty_dirs :: "node list" where
  "empty_dirs = [Dir ''a'' [], Dir ''b'' [Dir ''c'' []]]"

text \<open>
  Surroundings of the engine: every tool is found and every method enabled; by
  default each subprocess exits with code 1 and the input is no zip file.  In
  \<open>failing_7zip\<close> the archive tool exits with code 2 after writing one file; in
  \<open>dissecting_7zip\<close> it exits with code 0 after writing one file per section.
\<close>

definition base_tools :: tool_env where
  "base_tools =
     \<lparr>config = (\<lambda>section key. if key = ''timeout_seconds'' then Some ''300'' else Some ''true''),
      find_7zip = Some ''7z.exe'',
      find_innoextract = Some ''innoextract.exe'',
      int_of_str = (\<lambda>s. if s = ''300'' then Some 300 else None),
      subprocess_run = (\<lambda>cmd timeout d. (Exited 1, d)),
      zip_extractall = (\<lambda>p d. (Some OSError, d)),
      rmtree_fault = (\<lambda>d. None),
      makedirs_fault = False,
      extract_dir = ''C:/tmp/extracted''\<rparr>"

definition failing_7zip :: tool_env where
  "failing_7zip =
     base_tools\<lparr>subprocess_run :=
       (\<lambda>cmd timeout d. if take 1 cmd = [''7z.exe'']
                         then (Exited 2, Directory [File ''partial.bin''])
                         else (Exited 1, d))\<rparr>"

definition dissecting_7zip :: tool_env where
  "dissecting_7zip =
     base_tools\<lparr>subprocess_run :=
       (\<lambda>cmd timeout d. if take 1 cmd = [''7z.exe'']
                         then (Exited 0, Directory dissected_dir)
                         else (Exited 1, d))\<rparr>"

section \<open>Facts about the string operations\<close>

lemma scan_signatures_table: "scan_signatures data = first_framework framework_table data"
  by (simp add: scan_signatures_def framework_table_def has_marker_def)

lemma name_matches_patterns:
  "list_ex (\<lambda>pattern. contains (lower (basename env p)) pattern) installer_patterns
     = name_matches env p"
  by (simp add: installer_patterns_def name_matches_def)

lemma startswith_append: "startswith s p \<longleftrightarrow> (\<exists>r. s = p @ r)"
  by (induction s p rule: startswith.induct) auto

lemma startswith_set: "startswith s p \<Longrightarrow> set p \<subseteq> set s"
  by (induction s p rule: startswith.induct) auto

lemma contains_set: "contains s p \<Longrightarrow> set p \<subseteq> set s"
proof (induction s)
  case Nil
  then show ?case by simp
next
  case (Cons c cs)
  from Cons.prems have "startswith (c # cs) p \<or> contains cs p" by simp
  then show ?case
  proof
    assume "startswith (c # cs) p"
    then show ?thesis by (rule startswith_set)
  next
    assume "contains cs p"
    then have "set p \<subseteq> set cs" by (rule Cons.IH)
    then show ?thesis by auto
  qed
qed

lemma contains_replicate: "contains (replicate n c) p \<Longrightarrow> x \<in> set p \<Longrightarrow> x = c"
  using contains_set [of "replicate n c" p] by auto

lemma scan_zeros: "first_framework framework_table (replicate n (CHR 0x00)) = None"
  by (auto simp: framework_table_def has_marker_def dest: contains_replicate)

lemma foldl_count_file:
  "foldl count_file (e, m) fs =
     (e + length (filter is_executable_name fs), m + length (filter is_meaningful_name fs))"
  by (induction fs arbitrary: e m) (simp_all add: count_file_def)

lemma first_framework_Some:
  "first_framework tbl data = Some fam \<Longrightarrow> \<exists>markers. (fam, markers) \<in> set tbl \<and> has_marker data markers"
  by (induction tbl data rule: first_framework.induct) (auto split: if_splits)

lemma first_framework_None:
  "first_framework tbl data = None \<Longrightarrow> (fam, markers) \<in> set tbl \<Longrightarrow> \<not> has_marker data markers"
  by (induction tbl data rule: first_framework.induct) (auto split: if_splits)

section \<open>The installer classification\<close>

lemma detect_name: "name_matches env p \<Longrightarrow> detect_installer_type env p = Inr (True, ''Generic Installer'')"
  by (simp add: detect_installer_type_def detect_body_def name_matches_patterns)

lemma detect_signature:
  "\<not> name_matches env p \<Longrightarrow> open_rb env p = Some content \<Longrightarrow>
   first_framework framework_table (take 8192 content) = Some fam \<Longrightarrow>
   detect_installer_type env p = Inr (True, fam)"
  by (simp add: detect_installer_type_def detect_body_def name_matches_patterns scan_signatures_table)

lemma detect_size:
  "\<not> name_matches env p \<Longrightarrow> open_rb env p = Some content \<Longrightarrow>
   first_framework framework_table (take 8192 content) = None \<Longrightarrow> getsize env p = Some n \<Longrightarrow>
   detect_installer_type env p =
     (if n > 50 * 1024 * 1024 then Inr (True, ''Large Executable (Likely Installer)'')
      else Inr (False, ''Standalone Application''))"
  by (simp add: detect_installer_type_def detect_body_def name_matches_patterns scan_signatures_table)

lemma example_names:
  "name_matches example_env ''setup.exe''"
  "name_matches example_env ''setup_old.exe''"
  "\<not> name_matches example_env ''app.exe''"
  "\<not> name_matches example_env ''photo_tool.exe''"
  "\<not> name_matches example_env ''tool.exe''"
  "\<not> name_matches example_env ''gone.exe''"
  by (simp_all add: example_env_def name_matches_def lower_def lower_char_def)

lemma example_open:
  "open_rb example_env ''setup.exe'' = Some ''xx Inno Setup xx''"
  "open_rb example_env ''setup_old.exe'' = None"
  "open_rb example_env ''app.exe'' = Some ''packed by NSIS''"
  "open_rb example_env ''photo_tool.exe'' = Some (replicate (60 * 1024 * 1024) (CHR 0x00))"
  "open_rb example_env ''tool.exe'' = Some ''MZ''"
  "open_rb example_env ''gone.exe'' = None"
  by (simp_all add: example_env_def example_files_def)

lemma example_getsize:
  "getsize example_env ''photo_tool.exe'' = Some (60 * 1024 * 1024)"
  "getsize example_env ''tool.exe'' = Some 2"
  by (simp_all add: example_env_def example_files_def)

lemma example_scan:
  "first_framework framework_table (take 8192 ''xx Inno Setup xx'') = Some ''Inno Setup''"
  "first_framework framework_table (take 8192 ''packed by NSIS'') = Some ''NSIS''"
  "first_framework framework_table (take 8192 ''MZ'') = None"
  by (simp_all add: framework_table_def has_marker_def)

lemma example_scan_zeros:
  "first_framework framework_table (take 8192 (replicate (60 * 1024 * 1024) (CHR 0x00))) = None"
  by (simp only: take_replicate scan_zeros)

text \<open>
  C5.  The classification applies its rules in order, the first that matches deciding:
  a base name containing \<open>setup\<close>, \<open>install\<close> or \<open>installer\<close> (in any case) gives
  \<open>(True, "Generic Installer")\<close>; otherwise, on a file that can be read, a framework
  marker in the first 8192 bytes gives the first matching framework of the table;
  otherwise a size above 50 MiB gives \<open>"Large Executable (Likely Installer)"\<close>;
  otherwise the result is \<open>(False, "Standalone Application")\<close>.  A file of 60 MiB named
  \<open>photo_tool.exe\<close> without a marker is a large executable.
\<close>

theorem detect_installer_type_first_match:
  "(name_matches env p \<longrightarrow>
      detect_installer_type env p = Inr (True, ''Generic Installer''))
   \<and> (\<not> name_matches env p \<and> open_rb env p = Some content
        \<and> first_framework framework_table (take 8192 content) = Some fam \<longrightarrow>
      detect_installer_type env p = Inr (True, fam))
   \<and> (\<not> name_matches env p \<and> open_rb env p = Some content
        \<and> first_framework framework_table (take 8192 content) = None
        \<and> getsize env p = Some n \<and> n > 50 * 1024 * 1024 \<longrightarrow>
      detect_installer_type env p = Inr (True, ''Large Executable (Likely Installer)''))
   \<and> (\<not> name_matches env p \<and> open_rb env p = Some content
        \<and> first_framework framework_table (take 8192 content) = None
        \<and> getsize env p = Some n \<and> n \<le> 50 * 1024 * 1024 \<longrightarrow>
      detect_installer_type env p = Inr (False, ''Standalone Application''))
   \<and> (basename env p = ''photo_tool.exe'' \<and> open_rb env p = Some content
        \<and> first_framework framework_table (take 8192 content) = None
        \<and> getsize env p = Some (60 * 1024 * 1024) \<longrightarrow>
      detect_installer_type env p = Inr (True, ''Large Executable (Likely Installer)''))"
proof -
  have photo: "basename env p = ''photo_tool.exe'' \<Longrightarrow> \<not> name_matches env p"
    by (simp add: name_matches_def lower_def lower_char_def)
  show ?thesis
    using photo by (auto simp: detect_name detect_signature detect_size)
qed

theorem detect_installer_type_first_match_witness:
  "detect_installer_type example_env ''setup.exe'' = Inr (True, ''Generic Installer'')
   \<and> detect_installer_type example_env ''app.exe'' = Inr (True, ''NSIS'')
   \<and> detect_installer_type example_env ''photo_tool.exe''
       = Inr (True, ''Large Executable (Likely Installer)'')
   \<and> detect_installer_type example_env ''tool.exe'' = Inr (False, ''Standalone Application'')
   \<and> basename example_env ''photo_tool.exe'' = ''photo_tool.exe''"
proof -
  have big: "(60 * 1024 * 1024 :: nat) > 50 * 1024 * 1024" and small: "(2::nat) \<le> 50 * 1024 * 1024"
    by simp_all
  have b: "basename example_env ''photo_tool.exe'' = ''photo_tool.exe''"
    by (simp add: example_env_def)
  have r1: "detect_installer_type example_env ''setup.exe'' = Inr (True, ''Generic Installer'')"
    using detect_installer_type_first_match [of example_env "''setup.exe''"] example_names(1)
    by blast
  have r2: "detect_installer_type example_env ''app.exe'' = Inr (True, ''NSIS'')"
    using detect_installer_type_first_match
            [of example_env "''app.exe''" "''packed by NSIS''" "''NSIS''"]
          example_names(3) example_open(3) example_scan(2)
    by blast
  have r3: "detect_installer_type example_env ''photo_tool.exe''
              = Inr (True, ''Large Executable (Likely Installer)'')"
    using detect_installer_type_first_match
            [of example_env "''photo_tool.exe''" "replicate (60 * 1024 * 1024) (CHR 0x00)"
                _ "60 * 1024 * 1024"]
          b example_open(4) example_scan_zeros example_getsize(1)
    by blast
  have r4: "detect_installer_type example_env ''tool.exe''
              = Inr (False, ''Standalone Application'')"
    using detect_installer_type_first_match [of example_env "''tool.exe''" "''MZ''" _ 2]
          example_names(5) example_open(5) example_scan(3) example_getsize(2) small
    by blast
  from r1 r2 r3 r4 b show ?thesis by blast
qed

text \<open>
  C4, as stated, fails: a file named \<open>setup.exe\<close> whose first bytes hold the Inno Setup
  marker is classified by its name, with a family that is no framework's name.
\<close>

theorem signature_family_counterexample:
  "open_rb example_env ''setup.exe'' = Some ''xx Inno Setup xx''
   \<and> contains (take 8192 ''xx Inno Setup xx'') ''Inno Setup''
   \<and> detect_installer_type example_env ''setup.exe'' = Inr (True, ''Generic Installer'')
   \<and> ''Generic Installer'' \<notin> set (map fst framework_table)"
  by (simp add: example_open detect_name example_names framework_table_def)

text \<open>
  C4, amended.  For every readable file whose first 8192 bytes contain a marker of the
  framework table, the file is classified as an installer whatever its name; and when
  its base name contains none of \<open>setup\<close>, \<open>install\<close>, \<open>installer\<close>, the family is
  the name of the first framework of the table with a marker in those bytes.
\<close>

theorem signature_family:
  assumes "open_rb env p = Some content"
    and "(name, markers) \<in> set framework_table"
    and "has_marker (take 8192 content) markers"
  shows "\<exists>fam ms. (fam, ms) \<in> set framework_table \<and> has_marker (take 8192 content) ms
           \<and> first_framework framework_table (take 8192 content) = Some fam
           \<and> (\<exists>f. detect_installer_type env p = Inr (True, f))
           \<and> (\<not> name_matches env p \<longrightarrow> detect_installer_type env p = Inr (True, fam))"
proof -
  from assms(2,3) obtain fam
    where fam: "first_framework framework_table (take 8192 content) = Some fam"
    using first_framework_None [of framework_table "take 8192 content" name markers]
    by (cases "first_framework framework_table (take 8192 content)") auto
  then obtain ms where ms: "(fam, ms) \<in> set framework_table" "has_marker (take 8192 content) ms"
    using first_framework_Some by blast
  have "detect_installer_type env p = Inr (True, ''Generic Installer'')" if "name_matches env p"
    using that by (rule detect_name)
  moreover have "detect_installer_type env p = Inr (True, fam)" if "\<not> name_matches env p"
    using that assms(1) fam by (rule detect_signature)
  ultimately show ?thesis
    using fam ms by (cases "name_matches env p") auto
qed

theorem signature_family_witness:
  "open_rb example_env ''app.exe'' = Some ''packed by NSIS''
   \<and> (''NSIS'', [''NSIS'', ''Nullsoft'', ''!insertmacro'']) \<in> set framework_table
   \<and> has_marker (take 8192 ''packed by NSIS'') [''NSIS'', ''Nullsoft'', ''!insertmacro'']
   \<and> \<not> name_matches example_env ''app.exe''
   \<and> detect_installer_type example_env ''app.exe'' = Inr (True, ''NSIS'')"
proof -
  have t: "(''NSIS'', [''NSIS'', ''Nullsoft'', ''!insertmacro'']) \<in> set framework_table"
    by (simp add: framework_table_def)
  have m: "has_marker (take 8192 ''packed by NSIS'') [''NSIS'', ''Nullsoft'', ''!insertmacro'']"
    by (simp add: has_marker_def)
  from signature_family [OF example_open(3) t m] obtain fam
    where "first_framework framework_table (take 8192 ''packed by NSIS'') = Some fam"
      and "\<not> name_matches example_env ''app.exe'' \<longrightarrow>
             detect_installer_type example_env ''app.exe'' = Inr (True, fam)"
    by blast
  then have "detect_installer_type example_env ''app.exe'' = Inr (True, ''NSIS'')"
    using example_names(3) example_scan(2) by simp
  with t m example_open(3) example_names(3) show ?thesis by blast
qed

text \<open>
  C10, as stated, fails: a path that cannot be opened but whose base name contains
  \<open>setup\<close> is classified by its name before any file access.
\<close>

theorem detect_unreadable_counterexample:
  "open_rb example_env ''setup_old.exe'' = None
   \<and> detect_installer_type example_env ''setup_old.exe'' = Inr (True, ''Generic Installer'')"
  by (simp add: example_open detect_name example_names)

text \<open>
  C10, amended.  For every path whose base name contains none of \<open>setup\<close>,
  \<open>install\<close>, \<open>installer\<close> and that cannot be opened or read, the function raises
  nothing and returns \<open>(False, "Unknown")\<close>, a family that is neither
  \<open>"Standalone Application"\<close> nor any installer family.
\<close>

theorem detect_unreadable:
  assumes "\<not> name_matches env p" and "open_rb env p = None"
  shows "detect_installer_type env p = Inr (False, ''Unknown'')
         \<and> ''Unknown'' \<notin> set family_names"
  using assms
  by (simp add: detect_installer_type_def detect_body_def name_matches_patterns
        family_names_def framework_table_def)

theorem detect_unreadable_witness:
  "\<not> name_matches example_env ''gone.exe'' \<and> open_rb example_env ''gone.exe'' = None
   \<and> detect_installer_type example_env ''gone.exe'' = Inr (False, ''Unknown'')"
  using detect_unreadable [OF example_names(6) example_open(6)] example_names(6) example_open(6)
  by simp

section \<open>The header parser\<close>

lemma read_sections_valid [simp]: "is_valid_pe (read_sections n f a) = is_valid_pe a"
  by (induction n f a rule: read_sections.induct) (simp_all add: Let_def)

lemma set_architecture_valid [simp]: "is_valid_pe (set_architecture m a) = is_valid_pe a"
  by (simp add: set_architecture_def)

lemma set_subsystem_valid [simp]: "is_valid_pe (set_subsystem c a) = is_valid_pe a"
  by (simp add: set_subsystem_def)


lemma analyze_pe_structure_outcome:
  "analyze_pe_structure env p = Inr (outcome_analysis (analyze_body env p))"
  by (cases "analyze_body env p") (simp_all add: analyze_pe_structure_def)

lemma slice_dos [simp]: "slice 60 64 (take 64 content) = slice 60 64 content"
  by (simp add: slice_def drop_take)

lemma slice_mz [simp]: "slice 0 2 (take 64 content) = take 2 content"
  by (simp add: slice_def)


lemma parse_pe_not_mz: "take 2 content \<noteq> ''MZ'' \<Longrightarrow> parse_pe content = Returned initial_analysis"
  by (simp add: parse_pe_def Let_def)






text \<open>
  C9.  For every file whose first two bytes are not \<open>MZ\<close>, \<open>analyze_pe_structure\<close>
  raises nothing and returns the initial analysis, in which \<open>is_valid_pe\<close> is false.
\<close>

theorem not_mz_invalid:
  assumes "open_rb env p = Some content" and "take 2 content \<noteq> ''MZ''"
  shows "analyze_pe_structure env p = Inr initial_analysis \<and> \<not> is_valid_pe initial_analysis"
  using assms
  by (simp add: analyze_pe_structure_def analyze_body_def parse_pe_not_mz initial_analysis_def)

lemma le_value_stub: "le_value [CHR 0x40, CHR 0x00, CHR 0x00, CHR 0x00] = 64"
  by (simp add: le_value_def)


lemma parse_stub_then:
  "parse_pe (dos_stub @ rest) = parse_headers rest (initial_analysis\<lparr>is_valid_pe := True\<rparr>)"
  by (simp add: parse_pe_def dos_stub_def Let_def slice_def unpack_le_def le_value_def)

lemma parse68:
  "parse_pe (pe_with_optional 68)
     = Raised StructError (initial_analysis\<lparr>is_valid_pe := True, architecture := ''x86''\<rparr>)"
  by (simp add: pe_with_optional_def parse_stub_then parse_headers_def coff_x86_def Let_def
        slice_def unpack_le_def le_value_def set_architecture_def)

lemma funpow_times_zero: "((*) (256::nat) ^^ n) 0 = 0"
  by (induction n) simp_all

lemma dropWhile_replicate_append: "P x \<Longrightarrow> dropWhile P (replicate n x @ ys) = dropWhile P ys"
  by (induction n) simp_all

lemma parse70:
  "parse_pe (pe_with_optional 70)
     = Returned (initial_analysis\<lparr>is_valid_pe := True, architecture := ''x86'',
                                  sections := [''.text'']\<rparr>)"
  by (simp add: pe_with_optional_def parse_stub_then parse_headers_def coff_x86_def Let_def
        slice_def unpack_le_def le_value_def set_architecture_def set_subsystem_def
        text_section_def section_name_def rstrip_zero_def decode_ascii_ignore_def
        initial_analysis_def funpow_times_zero dropWhile_replicate_append)

lemma parse69:
  "parse_pe (pe_with_optional 69)
     = Raised StructError (initial_analysis\<lparr>is_valid_pe := True, architecture := ''x86''\<rparr>)"
  by (simp add: pe_with_optional_def parse_stub_then parse_headers_def coff_x86_def Let_def
        slice_def unpack_le_def le_value_def set_architecture_def)





theorem not_mz_invalid_witness:
  "open_rb (pe_env ''PK'') ''archive.zip'' = Some ''PK'' \<and> take 2 ''PK'' \<noteq> ''MZ''
   \<and> analyze_pe_structure (pe_env ''PK'') ''archive.zip'' = Inr initial_analysis"
proof -
  have o: "open_rb (pe_env ''PK'') ''archive.zip'' = Some ''PK''"
    by (simp add: pe_env_def)
  have m: "take 2 ''PK'' \<noteq> ''MZ''"
    by simp
  from not_mz_invalid [OF o m] o m show ?thesis by blast
qed

text \<open>
  C7.  The guard before the subsystem read is \<open>len(opt_header) >= 68\<close>, while the read
  needs bytes 68 and 69.  With an optional header of 68 or 69 bytes the read raises
  \<open>struct.error\<close>, and the section header that follows is never parsed; with 70
  bytes the same section is listed.
\<close>

theorem optional_header_68_aborts:
  "analyze_body (pe_env (pe_with_optional 68)) ''a.exe''
     = Raised StructError (initial_analysis\<lparr>is_valid_pe := True, architecture := ''x86''\<rparr>)
   \<and> analyze_pe_structure (pe_env (pe_with_optional 68)) ''a.exe''
     = Inr (initial_analysis\<lparr>is_valid_pe := True, architecture := ''x86''\<rparr>)
   \<and> sections (initial_analysis\<lparr>is_valid_pe := True, architecture := ''x86''\<rparr>) = []
   \<and> analyze_pe_structure (pe_env (pe_with_optional 69)) ''a.exe''
     = Inr (initial_analysis\<lparr>is_valid_pe := True, architecture := ''x86''\<rparr>)
   \<and> analyze_pe_structure (pe_env (pe_with_optional 70)) ''a.exe''
     = Inr (initial_analysis\<lparr>is_valid_pe := True, architecture := ''x86'',
                               sections := [''.text'']\<rparr>)"
  by (simp add: analyze_pe_structure_outcome analyze_body_def pe_env_def parse68 parse69 parse70
        initial_analysis_def)

section \<open>The validator\<close>

lemma count_exe: "fst (foldl count_file (0, 0) fs) = length (filter is_executable_name fs)"
  by (simp add: foldl_count_file)

lemma validate_directory:
  "validate_extraction dir (Directory entries) =
     (if dir = [] \<or> entries = [] then Inr False
      else if length (filter is_section_name (map node_name entries)) > 3 then Inr False
      else Inr (length (filter is_executable_name (concat (walk (Directory entries)))) > 0
                \<or> length (filter is_meaningful_name (concat (walk (Directory entries)))) > 5))"
  by (simp add: validate_extraction_def listdir_def foldl_count_file Let_def)

lemma filter_Nil_length: "xs = [] \<Longrightarrow> length (filter P xs) = 0"
  by simp

lemma list_ex_filter: "list_ex P xs \<longleftrightarrow> length (filter P xs) > 0"
  by (induction xs) auto

text \<open>
  C2.  A directory with more than 3 immediate entries whose names start with a
  linker-section prefix is rejected; so are a path that does not exist and a
  directory without entries.
\<close>

theorem validate_extraction_rejects:
  "(length (filter is_section_name (map node_name entries)) > 3 \<longrightarrow>
      validate_extraction dir (Directory entries) = Inr False)
   \<and> validate_extraction dir Missing = Inr False
   \<and> validate_extraction dir (Directory []) = Inr False"
  by (simp add: validate_directory) (simp add: validate_extraction_def)

lemma dissected_count:
  "length (filter is_section_name (map node_name dissected_dir)) = 4"
  by (simp add: dissected_dir_def is_section_name_def pe_sections_def)

theorem validate_extraction_rejects_witness:
  "length (filter is_section_name (map node_name dissected_dir)) > 3
   \<and> validate_extraction ''C:/tmp/extracted'' (Directory dissected_dir) = Inr False"
proof -
  have h: "length (filter is_section_name (map node_name dissected_dir)) > 3"
    unfolding dissected_count by simp
  from validate_extraction_rejects [of dissected_dir "''C:/tmp/extracted''"] h
  show ?thesis by blast
qed

text \<open>
  C3, amended.  A directory whose tree contains no file is rejected.  A directory,
  at a non-empty path, whose tree contains a file with extension \<open>.exe\<close>, \<open>.dll\<close> or
  \<open>.sys\<close> (in any case) and which has at most 3 immediate entries named with a
  linker-section prefix is accepted.
\<close>

theorem validate_extraction_files:
  "(concat (walk (Directory entries)) = [] \<longrightarrow>
      validate_extraction dir (Directory entries) = Inr False)
   \<and> (dir \<noteq> [] \<and> list_ex is_executable_name (concat (walk (Directory entries)))
       \<and> length (filter is_section_name (map node_name entries)) \<le> 3 \<longrightarrow>
      validate_extraction dir (Directory entries) = Inr True)"
proof (intro conjI impI)
  assume "concat (walk (Directory entries)) = []"
  then have "length (filter is_executable_name (concat (walk (Directory entries)))) = 0"
    and "length (filter is_meaningful_name (concat (walk (Directory entries)))) = 0"
    by (simp_all only: filter_Nil_length)
  then show "validate_extraction dir (Directory entries) = Inr False"
    by (simp only: validate_directory) simp
next
  assume h: "dir \<noteq> [] \<and> list_ex is_executable_name (concat (walk (Directory entries)))
       \<and> length (filter is_section_name (map node_name entries)) \<le> 3"
  then have "entries \<noteq> []"
    by (auto simp: walk_def)
  moreover from h have "length (filter is_executable_name (concat (walk (Directory entries)))) > 0"
    by (simp only: list_ex_filter)
  moreover from h have "\<not> length (filter is_section_name (map node_name entries)) > 3"
    by linarith
  ultimately show "validate_extraction dir (Directory entries) = Inr True"
    using h by (simp only: validate_directory) simp
qed

lemma dissected_exe: "list_ex is_executable_name (concat (walk (Directory dissected_dir)))"
  by (simp add: walk_def dissected_dir_def is_executable_name_def endswith_def lower_def
        lower_char_def)

text \<open>
  C3, as stated, fails: a directory holding \<open>app.exe\<close> beside four files named after
  linker sections is rejected, the section test coming before the search for
  executables.
\<close>

theorem validate_extraction_files_counterexample:
  "list_ex is_executable_name (concat (walk (Directory dissected_dir)))
   \<and> validate_extraction ''C:/tmp/extracted'' (Directory dissected_dir) = Inr False"
  using dissected_exe by (simp only: validate_directory dissected_count) simp

theorem validate_extraction_files_witness:
  "concat (walk (Directory empty_dirs)) = []
   \<and> validate_extraction ''C:/tmp/extracted'' (Directory empty_dirs) = Inr False
   \<and> ''C:/tmp/extracted'' \<noteq> []
   \<and> list_ex is_executable_name (concat (walk (Directory app_dir)))
   \<and> length (filter is_section_name (map node_name app_dir)) \<le> 3
   \<and> validate_extraction ''C:/tmp/extracted'' (Directory app_dir) = Inr True"
proof -
  have a: "concat (walk (Directory empty_dirs)) = []"
    by (simp add: walk_def empty_dirs_def)
  have l: "lower ''App.EXE'' = ''app.exe''"
    by code_simp
  have b: "list_ex is_executable_name (concat (walk (Directory app_dir)))"
    by (simp add: walk_def app_dir_def is_executable_name_def endswith_def l)
  have c: "length (filter is_section_name (map node_name app_dir)) \<le> 3"
    by (simp add: app_dir_def)
  have d: "''C:/tmp/extracted'' \<noteq> []"
    by simp
  from validate_extraction_files [of empty_dirs "''C:/tmp/extracted''"] a
  have r1: "validate_extraction ''C:/tmp/extracted'' (Directory empty_dirs) = Inr False"
    by blast
  from validate_extraction_files [of app_dir "''C:/tmp/extracted''"] b c d
  have r2: "validate_extraction ''C:/tmp/extracted'' (Directory app_dir) = Inr True"
    by blast
  from a b c d r1 r2 show ?thesis by blast
qed

section \<open>The strategies and the orchestration\<close>

lemma run_tool_success:
  "fst (run_tool env cmd d) \<longleftrightarrow>
     (\<exists>t entries. int_of_str env (config_get env ''Extraction'' ''timeout_seconds'' ''300'') = Some t
        \<and> subprocess_run env cmd t d = (Exited 0, Directory entries) \<and> entries \<noteq> [])"
  by (auto simp: run_tool_def listdir_def split: option.splits prod.splits proc_outcome.splits path_state.splits)

text \<open>
  C8.  Each tool-backed strategy reports success exactly when its subprocess was
  started (tool found, timeout read), exited with code 0, and left the target
  directory with at least one entry.
\<close>

theorem tool_strategy_success:
  "(fst (extract_with_7zip env installer_path d) \<longleftrightarrow>
      (\<exists>exe t entries. find_7zip env = Some exe
         \<and> int_of_str env (config_get env ''Extraction'' ''timeout_seconds'' ''300'') = Some t
         \<and> subprocess_run env (cmd_7zip env exe installer_path) t d = (Exited 0, Directory entries)
         \<and> entries \<noteq> []))
   \<and> (fst (extract_with_innoextract env installer_path d) \<longleftrightarrow>
      (\<exists>exe t entries. find_innoextract env = Some exe
         \<and> int_of_str env (config_get env ''Extraction'' ''timeout_seconds'' ''300'') = Some t
         \<and> subprocess_run env (cmd_innoextract env exe installer_path) t d
              = (Exited 0, Directory entries)
         \<and> entries \<noteq> []))
   \<and> (fst (extract_msi env installer_path d) \<longleftrightarrow>
      (\<exists>t entries.
         int_of_str env (config_get env ''Extraction'' ''timeout_seconds'' ''300'') = Some t
         \<and> subprocess_run env (cmd_msi env installer_path) t d = (Exited 0, Directory entries)
         \<and> entries \<noteq> []))"
  by (simp add: extract_with_7zip_def extract_with_innoextract_def extract_msi_def
        run_tool_success split: option.splits)

theorem tool_strategy_success_witness:
  "fst (extract_with_7zip dissecting_7zip ''app.exe'' (Directory []))
   \<and> \<not> fst (extract_with_7zip failing_7zip ''app.exe'' (Directory []))"
proof -
  have t: "int_of_str dissecting_7zip
             (config_get dissecting_7zip ''Extraction'' ''timeout_seconds'' ''300'') = Some 300"
    and f: "find_7zip dissecting_7zip = Some ''7z.exe''"
    and r: "subprocess_run dissecting_7zip (cmd_7zip dissecting_7zip ''7z.exe'' ''app.exe'') 300
              (Directory []) = (Exited 0, Directory dissected_dir)"
    and n: "dissected_dir \<noteq> []"
    by (simp_all add: dissecting_7zip_def base_tools_def config_get_def cmd_7zip_def
          dissected_dir_def)
  have "\<not> (\<exists>exe t entries. find_7zip failing_7zip = Some exe
           \<and> int_of_str failing_7zip
                 (config_get failing_7zip ''Extraction'' ''timeout_seconds'' ''300'') = Some t
           \<and> subprocess_run failing_7zip (cmd_7zip failing_7zip exe ''app.exe'') t (Directory [])
                 = (Exited 0, Directory entries)
           \<and> entries \<noteq> [])"
    by (simp add: failing_7zip_def base_tools_def cmd_7zip_def)
  with f t r n tool_strategy_success [of dissecting_7zip "''app.exe''" "Directory []"]
    tool_strategy_success [of failing_7zip "''app.exe''" "Directory []"]
  show ?thesis by blast
qed

lemma run_tool_dir: "fst (run_tool env cmd d) \<Longrightarrow> \<exists>es. snd (run_tool env cmd d) = Directory es"
  by (auto simp: run_tool_def listdir_def split: option.splits prod.splits proc_outcome.splits path_state.splits if_splits)

lemma strategy_dir:
  "fst (extract_with_7zip env p d) \<Longrightarrow> \<exists>es. snd (extract_with_7zip env p d) = Directory es"
  "fst (extract_with_innoextract env p d) \<Longrightarrow> \<exists>es. snd (extract_with_innoextract env p d) = Directory es"
  "fst (extract_msi env p d) \<Longrightarrow> \<exists>es. snd (extract_msi env p d) = Directory es"
  by (auto simp: extract_with_7zip_def extract_with_innoextract_def extract_msi_def
        split: option.splits dest: run_tool_dir)

lemma cleanup_directory:
  "rmtree_fault env (Directory es) = None \<Longrightarrow> \<not> makedirs_fault env \<Longrightarrow>
     cleanup_failed_extraction env (Directory es) = Directory []"
  by (simp add: cleanup_failed_extraction_def rmtree_def makedirs_def)

lemma pairs_clean_snoc:
  assumes "pairs_clean log"
    and "log \<noteq> [] \<and> outcome (last log) = RejectedByValidator \<longrightarrow> dir_at_start a = Directory []"
  shows "pairs_clean (log @ [a])"
  unfolding pairs_clean_def
proof (intro allI impI)
  fix i
  assume h: "Suc i < length (log @ [a]) \<and> outcome ((log @ [a]) ! i) = RejectedByValidator"
  show "dir_at_start ((log @ [a]) ! Suc i) = Directory []"
  proof (cases "Suc i < length log")
    case True
    with h assms(1) show ?thesis
      by (simp add: pairs_clean_def nth_append)
  next
    case False
    with h have i: "Suc i = length log" by simp
    then have ne: "log \<noteq> []"
      by auto
    then have "last log = log ! (length log - 1)"
      by (rule last_conv_nth)
    with i have "(log @ [a]) ! i = last log"
      by (simp add: nth_append flip: i)
    with h assms(2) i ne show ?thesis
      by (simp add: nth_append)
  qed
qed

lemma after_strategy_clean:
  assumes "\<forall>d. rmtree_fault env d = None" and "\<not> makedirs_fault env"
    and "clean_after_reject st" and "fst r \<Longrightarrow> \<exists>es. snd r = Directory es"
  shows "clean_after_reject (snd (after_strategy env s st r))"
proof -
  obtain d0 log where st: "st = (d0, log)" by (cases st)
  obtain ok d where r: "r = (ok, d)" by (cases r)
  from assms(3) st have pc: "pairs_clean log"
    and l: "log \<noteq> [] \<and> outcome (last log) = RejectedByValidator \<longrightarrow> d0 = Directory []"
    by (simp_all add: clean_after_reject_def)
  have snoc: "pairs_clean (log @ [\<lparr>strategy = s, dir_at_start = d0, outcome = oc\<rparr>])" for oc
    using pc l by (intro pairs_clean_snoc) simp_all
  have cl: "cleanup_failed_extraction env d = Directory []" if ok
    using that assms(1,2,4) r cleanup_directory by fastforce
  show ?thesis
    using snoc cl
    by (auto simp: after_strategy_def st r clean_after_reject_def split: sum.splits)
qed

lemma initial_clean: "clean_after_reject (Directory [], [])"
  by (simp add: clean_after_reject_def pairs_clean_def)

lemma methods_clean:
  assumes "\<forall>d. rmtree_fault env d = None" and "\<not> makedirs_fault env" and "clean_after_reject st"
  shows "clean_after_reject (snd (method_7zip env p st))"
    and "clean_after_reject (snd (method_innoextract env p st))"
    and "clean_after_reject (snd (method_msi env p st))"
  using assms after_strategy_clean [OF assms(1,2,3)] strategy_dir
  by (simp_all add: method_7zip_def method_innoextract_def method_msi_def)

lemma universal_pairs:
  assumes "clean_after_reject st"
  shows "pairs_clean (snd (snd (method_universal env p st)))"
proof -
  obtain d0 log where st: "st = (d0, log)" by (cases st)
  from assms st have pc: "pairs_clean log"
    and l: "log \<noteq> [] \<and> outcome (last log) = RejectedByValidator \<longrightarrow> d0 = Directory []"
    by (simp_all add: clean_after_reject_def)
  have snoc: "pairs_clean (log @ [\<lparr>strategy = Universal, dir_at_start = d0, outcome = oc\<rparr>])" for oc
    using pc l by (intro pairs_clean_snoc) simp_all
  show ?thesis
    using snoc by (auto simp: method_universal_def st split: prod.splits sum.splits)
qed

lemma and_then_clean:
  assumes "clean_after_reject (snd r)" and "\<And>st. clean_after_reject st \<Longrightarrow> clean_after_reject (snd (m st))"
  shows "clean_after_reject (snd (and_then r m))"
  using assms by (cases r; cases "fst r") (auto simp: and_then_def)

lemma and_then_simps:
  "and_then (Continue, st) m = m st"
  "and_then (Return v, st) m = (Return v, st)"
  by (simp_all add: and_then_def)

lemma run_methods_pairs:
  assumes "\<forall>d. rmtree_fault env d = None" and "\<not> makedirs_fault env"
  shows "pairs_clean (attempts env p)"
proof -
  let ?r3 = "and_then (and_then (method_7zip env p (Directory [], []))
               (method_innoextract env p)) (method_msi env p)"
  have "clean_after_reject (snd ?r3)"
    by (intro and_then_clean methods_clean assms initial_clean)
  then have c: "clean_after_reject (snd ?r3)" .
  obtain stp st where r3: "?r3 = (stp, st)"
    by (cases ?r3)
  with c have cs: "clean_after_reject st"
    by simp
  show ?thesis
  proof (cases stp)
    case Continue
    with r3 universal_pairs [OF cs, of env p] show ?thesis
      by (simp add: attempts_def run_methods_def and_then_simps)
  next
    case (Return v)
    with r3 cs show ?thesis
      by (simp add: attempts_def run_methods_def and_then_simps clean_after_reject_def)
  qed
qed

text \<open>
  C1, amended.  Where \<open>rmtree\<close> and \<open>makedirs\<close> do not fail, the cleanup that follows
  a rejection by the validator leaves the target directory empty, and in every run
  each strategy called after a rejected attempt starts on the empty directory.
\<close>

theorem cleanup_before_next_strategy:
  assumes "\<forall>d. rmtree_fault env d = None" and "\<not> makedirs_fault env"
  shows "cleanup_failed_extraction env (Directory entries) = Directory []
         \<and> (\<forall>i. Suc i < length (attempts env p)
                  \<and> outcome (attempts env p ! i) = RejectedByValidator
                \<longrightarrow> dir_at_start (attempts env p ! Suc i) = Directory [])"
  using run_methods_pairs [OF assms, of p] cleanup_directory [of env entries] assms
  by (simp add: pairs_clean_def)

lemma timeout_base: "int_of_str base_tools (config_get base_tools ''Extraction'' ''timeout_seconds'' ''300'') = Some 300"
  by (simp add: base_tools_def config_get_def)

lemma attempts_failing:
  "attempts failing_7zip ''app.exe'' =
     [\<lparr>strategy = SevenZip, dir_at_start = Directory [], outcome = ReportedFailure\<rparr>,
      \<lparr>strategy = InnoExtract, dir_at_start = Directory [File ''partial.bin''],
        outcome = ReportedFailure\<rparr>,
      \<lparr>strategy = Universal, dir_at_start = Directory [File ''partial.bin''],
        outcome = ReportedFailure\<rparr>]"
  by (simp add: attempts_def run_methods_def and_then_simps method_7zip_def
        method_innoextract_def method_msi_def method_universal_def after_strategy_def
        extract_with_7zip_def extract_with_innoextract_def extract_universal_def run_tool_def
        cmd_7zip_def cmd_innoextract_def config_get_def failing_7zip_def base_tools_def
        endswith_def lower_def lower_char_def)

lemma dissected_rejected:
  "validate_extraction ''C:/tmp/extracted'' (Directory dissected_dir) = Inr False"
  by (simp only: validate_directory dissected_count) simp

lemma dissected_nonempty: "dissected_dir \<noteq> []"
  by (simp add: dissected_dir_def)

lemma attempts_dissecting:
  "attempts dissecting_7zip ''app.exe'' =
     [\<lparr>strategy = SevenZip, dir_at_start = Directory [], outcome = RejectedByValidator\<rparr>,
      \<lparr>strategy = InnoExtract, dir_at_start = Directory [], outcome = ReportedFailure\<rparr>,
      \<lparr>strategy = Universal, dir_at_start = Directory [], outcome = ReportedFailure\<rparr>]"
  by (simp add: attempts_def run_methods_def and_then_simps method_7zip_def
        method_innoextract_def method_msi_def method_universal_def after_strategy_def
        extract_with_7zip_def extract_with_innoextract_def extract_universal_def run_tool_def
        cmd_7zip_def cmd_innoextract_def config_get_def dissecting_7zip_def base_tools_def
        endswith_def lower_def lower_char_def listdir_def dissected_rejected dissected_nonempty
        cleanup_failed_extraction_def rmtree_def makedirs_def)

text \<open>
  C1, as stated, fails: when the archive tool exits with a nonzero code after writing
  a file, no cleanup runs, and the next strategy starts on the directory holding that
  file.
\<close>

theorem stale_output_counterexample:
  "outcome (attempts failing_7zip ''app.exe'' ! 0) = ReportedFailure
   \<and> strategy (attempts failing_7zip ''app.exe'' ! 1) = InnoExtract
   \<and> dir_at_start (attempts failing_7zip ''app.exe'' ! 1) = Directory [File ''partial.bin'']"
  by (simp add: attempts_failing)

theorem cleanup_before_next_strategy_witness:
  "(\<forall>d. rmtree_fault dissecting_7zip d = None) \<and> \<not> makedirs_fault dissecting_7zip
   \<and> Suc 0 < length (attempts dissecting_7zip ''app.exe'')
   \<and> outcome (attempts dissecting_7zip ''app.exe'' ! 0) = RejectedByValidator
   \<and> dir_at_start (attempts dissecting_7zip ''app.exe'' ! Suc 0) = Directory []"
proof -
  have a: "\<forall>d. rmtree_fault dissecting_7zip d = None"
    by (simp add: dissecting_7zip_def base_tools_def)
  have b: "\<not> makedirs_fault dissecting_7zip"
    by (simp add: dissecting_7zip_def base_tools_def)
  have c: "Suc 0 < length (attempts dissecting_7zip ''app.exe'')"
    and d: "outcome (attempts dissecting_7zip ''app.exe'' ! 0) = RejectedByValidator"
    by (simp_all add: attempts_dissecting)
  from cleanup_before_next_strategy [OF a b, of _ "''app.exe''"] c d
  have "dir_at_start (attempts dissecting_7zip ''app.exe'' ! Suc 0) = Directory []"
    by blast
  with a b c d show ?thesis by blast
qed

end
